theory Spec2Isabelle
  imports Main "HOL-Library.Word" "HOL-Library.Signed_Division"
begin

section \<open>Machine integers\<close>

text \<open>
  \<open>qint64\<close> values are modelled as \<open>int\<close>. Comparison, \<open>qMax\<close>, \<open>qMin\<close> and division by a
  positive constant cannot leave the 64-bit range; multiplication can, and is wrapped to
  two's complement by \<open>wrap64\<close>. C++ division truncates toward zero: \<open>sdiv\<close>.
  The unsigned fields of the operating system's structures are words of their width.
\<close>

definition wrap64 :: "int \<Rightarrow> int" where
  "wrap64 x = (x + 2 ^ 63) mod 2 ^ 64 - 2 ^ 63"

section \<open>Data model\<close>

text \<open>\<open>struct SyncConfiguration\<close>: the three fields \<open>calculateSyncConfiguration\<close> assigns.\<close>

record SyncConfiguration =
  syncIntervalBytes :: int
  syncIntervalMs :: int
  memoryTier :: string

text \<open>
  The named constants \<open>calculateSyncConfiguration\<close> reads. Their declarations are in
  \<open>systemmemorymanager.h\<close>, which is not part of the sources at hand, so they are a
  parameter of the model. The comparisons and \<open>qMax\<close>, \<open>qMin\<close> of the function use
  them as signed 64-bit values.
\<close>

record constants =
  LOW_MEMORY_THRESHOLD_MB :: int
  HIGH_MEMORY_THRESHOLD_MB :: int
  MIN_SYNC_INTERVAL_BYTES :: int
  MAX_SYNC_INTERVAL_BYTES :: int
  DEFAULT_SYNC_INTERVAL_MS :: int

text \<open>
  Modelled from the spec: the values of the constants declared in the missing header
  \<open>systemmemorymanager.h\<close>, as section 8 of the specification gives them
  (\<open>LOW_MEMORY_THRESHOLD_MB=4096\<close>, \<open>HIGH_MEMORY_THRESHOLD_MB=16384\<close>, \<open>MIN=16 MiB\<close>,
  \<open>MAX=256 MiB\<close>) and its tier table (\<open>DEFAULT_SYNC_INTERVAL_MS\<close> is 5000 ms).
\<close>

definition example_constants :: constants where
  "example_constants =
     \<lparr> LOW_MEMORY_THRESHOLD_MB = 4096,
       HIGH_MEMORY_THRESHOLD_MB = 16384,
       MIN_SYNC_INTERVAL_BYTES = 16 * 1024 * 1024,
       MAX_SYNC_INTERVAL_BYTES = 256 * 1024 * 1024,
       DEFAULT_SYNC_INTERVAL_MS = 5000 \<rparr>"

section \<open>Strings\<close>

text \<open>
  \<open>QString::arg(qint64)\<close> substitutes the decimal rendering of the number for \<open>%1\<close>:
  the digits of the absolute value, most significant first, after a minus sign for a
  negative number.
\<close>

function digits :: "nat \<Rightarrow> string" where
  "digits n =
     (if n < 10 then [''0123456789'' ! n]
      else digits (n div 10) @ [''0123456789'' ! (n mod 10)])"
  by pat_completeness auto
termination
  by (relation "measure (\<lambda>n. n)") auto

declare digits.simps [simp del]

definition number :: "int \<Rightarrow> string" where
  "number k = (if k < 0 then CHR ''-'' # digits (nat (- k)) else digits (nat k))"

section \<open>The sync policy\<close>

text \<open>
  Lines 60 to 75 of \<open>calculateSyncConfiguration\<close>: what the branch taken assigns to the
  local \<open>syncIntervalMB\<close>, to \<open>config.syncIntervalMs\<close> and to \<open>config.memoryTier\<close>.
\<close>

definition tierPolicy :: "constants \<Rightarrow> int \<Rightarrow> int \<times> int \<times> string" where
  "tierPolicy c totalMemMB =
     (if totalMemMB < LOW_MEMORY_THRESHOLD_MB c then
        (max 16 (totalMemMB sdiv 64), 3000,
         ''Low memory ('' @ number totalMemMB @ ''MB)'')
      else if totalMemMB < HIGH_MEMORY_THRESHOLD_MB c then
        (max 32 (totalMemMB sdiv 80), DEFAULT_SYNC_INTERVAL_MS c,
         ''Medium memory ('' @ number totalMemMB @ ''MB)'')
      else
        (min 256 (max 64 (totalMemMB sdiv 64)), 7000,
         ''High memory ('' @ number totalMemMB @ ''MB)''))"

definition syncIntervalMB :: "constants \<Rightarrow> int \<Rightarrow> int" where
  "syncIntervalMB c totalMemMB = fst (tierPolicy c totalMemMB)"

text \<open>
  Lines 56 to 88: the configuration as a function of the local \<open>totalMemMB\<close>.
  \<open>syncIntervalMB * 1024 * 1024\<close> is two \<open>qint64\<close> multiplications; the bound is
  \<open>qMax(MIN, qMin(MAX, bytes))\<close>.
\<close>

definition configFor :: "constants \<Rightarrow> int \<Rightarrow> SyncConfiguration" where
  "configFor c totalMemMB =
     (case tierPolicy c totalMemMB of
        (mb, ms, tier) \<Rightarrow>
          \<lparr> syncIntervalBytes =
              max (MIN_SYNC_INTERVAL_BYTES c)
                (min (MAX_SYNC_INTERVAL_BYTES c) (wrap64 (wrap64 (mb * 1024) * 1024))),
            syncIntervalMs = ms,
            memoryTier = tier \<rparr>)"

section \<open>The operating system\<close>

text \<open>
  What the system calls of the four \<open>#ifdef\<close> branches answer when they are made. A call
  that fails is \<open>None\<close>. The fields have the widths of the LP64 structures:
  \<open>DWORDLONG\<close>, \<open>int64_t\<close>, \<open>vm_size_t\<close> and \<open>unsigned long\<close> are 64 bits wide,
  \<open>natural_t\<close> and \<open>unsigned int\<close> 32 bits. \<open>/proc/meminfo\<close> is the list of lines
  \<open>QTextStream::readLine\<close> returns one after the other, \<open>None\<close> when the file cannot be
  opened.
\<close>

datatype platform = Windows | Darwin | Linux | Unknown

record MEMORYSTATUSEX =
  ullTotalPhys :: "64 word"
  ullAvailPhys :: "64 word"

record vm_info =
  page_size :: "64 word"
  free_count :: "32 word"
  inactive_count :: "32 word"

record sysinfo_t =
  totalram :: "64 word"
  freeram :: "64 word"
  bufferram :: "64 word"
  mem_unit :: "32 word"

record os_state =
  GlobalMemoryStatusEx :: "MEMORYSTATUSEX option"
  hw_memsize :: "64 word option"
  host_statistics64 :: "vm_info option"
  sysinfo :: "sysinfo_t option"
  proc_meminfo :: "string list option"

subsection \<open>Qt string operations\<close>

text \<open>
  \<open>QString::startsWith\<close>; \<open>QString::split(QRegularExpression("\\s+"))\<close> with the default
  \<open>Qt::KeepEmptyParts\<close>: the pieces between the maximal runs of white space, an empty
  piece before a leading run and after a trailing one; \<open>QString::toLongLong\<close> in base 10:
  an optional sign and decimal digits, within the range of \<open>qint64\<close>, anything else fails.
  The flag of \<open>splitFrom\<close> says that the character before was white space.
\<close>

definition startsWith :: "string \<Rightarrow> string \<Rightarrow> bool" where
  "startsWith s p = (take (length p) s = p)"

definition isSpace :: "char \<Rightarrow> bool" where
  "isSpace ch = (ch \<in> set [CHR 0x09, CHR 0x0A, CHR 0x0B, CHR 0x0C, CHR 0x0D, CHR 0x20])"

fun splitFrom :: "bool \<Rightarrow> string \<Rightarrow> string list" where
  "splitFrom inRun [] = [[]]"
| "splitFrom inRun (ch # rest) =
     (if isSpace ch then
        (if inRun then splitFrom True rest else [] # splitFrom True rest)
      else
        (case splitFrom False rest of
           [] \<Rightarrow> [[ch]]
         | piece # pieces \<Rightarrow> (ch # piece) # pieces))"

definition splitWhitespace :: "string \<Rightarrow> string list" where
  "splitWhitespace s = splitFrom False s"

definition isDigit :: "char \<Rightarrow> bool" where
  "isDigit ch = ((48::nat) \<le> of_char ch \<and> of_char ch \<le> (57::nat))"

definition decimalValue :: "string \<Rightarrow> int" where
  "decimalValue ds = foldl (\<lambda>acc ch. 10 * acc + (int (of_char ch) - 48)) 0 ds"

definition toLongLong :: "string \<Rightarrow> int option" where
  "toLongLong s =
     (let (negative, ds) =
            (case s of
               [] \<Rightarrow> (False, [])
             | ch # rest \<Rightarrow>
                 if ch = CHR ''-'' then (True, rest)
                 else if ch = CHR ''+'' then (False, rest)
                 else (False, s));
          v = (if negative then - decimalValue ds else decimalValue ds)
      in if ds \<noteq> [] \<and> list_all isDigit ds \<and> - (2 ^ 63) \<le> v \<and> v < 2 ^ 63
         then Some v else None)"

text \<open>\<open>toLongLong()\<close> without the \<open>ok\<close> flag: 0 when the conversion fails.\<close>

definition toLongLong0 :: "string \<Rightarrow> int" where
  "toLongLong0 s = (case toLongLong s of None \<Rightarrow> 0 | Some v \<Rightarrow> v)"

section \<open>The platform probes\<close>

text \<open>
  \<open>getPlatformTotalMemoryMB\<close>, one definition for each \<open>#ifdef\<close> branch. The Linux
  fallback reads \<open>/proc/meminfo\<close> line by line and leaves the loop at the first line that
  starts with \<open>MemTotal:\<close>, with the value when the second field is a number and for the
  final \<open>return 0\<close> otherwise.
\<close>

definition getPlatformTotalMemoryMB_Windows :: "os_state \<Rightarrow> int" where
  "getPlatformTotalMemoryMB_Windows os =
     (case GlobalMemoryStatusEx os of
        Some memStatus \<Rightarrow> sint (ullTotalPhys memStatus div (1024 * 1024))
      | None \<Rightarrow> 0)"

definition getPlatformTotalMemoryMB_Darwin :: "os_state \<Rightarrow> int" where
  "getPlatformTotalMemoryMB_Darwin os =
     (case hw_memsize os of
        Some memsize \<Rightarrow> sint memsize sdiv (1024 * 1024)
      | None \<Rightarrow> 0)"

fun scanMemTotal :: "string list \<Rightarrow> int" where
  "scanMemTotal [] = 0"
| "scanMemTotal (line # rest) =
     (if startsWith line ''MemTotal:'' then
        (let parts = splitWhitespace line
         in if length parts \<ge> 2 then
              (case toLongLong (parts ! 1) of
                 Some memKB \<Rightarrow> memKB sdiv 1024
               | None \<Rightarrow> 0)
            else 0)
      else scanMemTotal rest)"

definition getPlatformTotalMemoryMB_Linux :: "os_state \<Rightarrow> int" where
  "getPlatformTotalMemoryMB_Linux os =
     (case sysinfo os of
        Some info \<Rightarrow> sint (totalram info * ucast (mem_unit info) div (1024 * 1024))
      | None \<Rightarrow>
          (case proc_meminfo os of
             Some lines \<Rightarrow> scanMemTotal lines
           | None \<Rightarrow> 0))"

definition getPlatformTotalMemoryMB_Unknown :: "os_state \<Rightarrow> int" where
  "getPlatformTotalMemoryMB_Unknown os = 0"

fun getPlatformTotalMemoryMB :: "platform \<Rightarrow> os_state \<Rightarrow> int" where
  "getPlatformTotalMemoryMB Windows os = getPlatformTotalMemoryMB_Windows os"
| "getPlatformTotalMemoryMB Darwin os = getPlatformTotalMemoryMB_Darwin os"
| "getPlatformTotalMemoryMB Linux os = getPlatformTotalMemoryMB_Linux os"
| "getPlatformTotalMemoryMB Unknown os = getPlatformTotalMemoryMB_Unknown os"

text \<open>
  \<open>getPlatformAvailableMemoryMB\<close>. The Linux fallback reads every line; a later line of
  the same key overwrites the earlier value, and a field that is no number counts as 0.
\<close>

definition getPlatformAvailableMemoryMB_Windows :: "os_state \<Rightarrow> int" where
  "getPlatformAvailableMemoryMB_Windows os =
     (case GlobalMemoryStatusEx os of
        Some memStatus \<Rightarrow> sint (ullAvailPhys memStatus div (1024 * 1024))
      | None \<Rightarrow> 0)"

definition getPlatformAvailableMemoryMB_Darwin :: "os_state \<Rightarrow> int" where
  "getPlatformAvailableMemoryMB_Darwin os =
     (case host_statistics64 os of
        Some vm_stat \<Rightarrow>
          (let available_pages = (ucast (free_count vm_stat + inactive_count vm_stat) :: 64 word);
               available_bytes = available_pages * page_size vm_stat
           in sint available_bytes sdiv (1024 * 1024))
      | None \<Rightarrow> 0)"

record meminfo_fields =
  memAvailableKB :: int
  memFreeKB :: int
  buffersKB :: int
  cachedKB :: int

definition secondField :: "string \<Rightarrow> int \<Rightarrow> int" where
  "secondField line old =
     (let parts = splitWhitespace line
      in if length parts \<ge> 2 then toLongLong0 (parts ! 1) else old)"

definition scanAvailableLine :: "meminfo_fields \<Rightarrow> string \<Rightarrow> meminfo_fields" where
  "scanAvailableLine f line =
     (if startsWith line ''MemAvailable:'' then
        f\<lparr>memAvailableKB := secondField line (memAvailableKB f)\<rparr>
      else if startsWith line ''MemFree:'' then
        f\<lparr>memFreeKB := secondField line (memFreeKB f)\<rparr>
      else if startsWith line ''Buffers:'' then
        f\<lparr>buffersKB := secondField line (buffersKB f)\<rparr>
      else if startsWith line ''Cached:'' then
        f\<lparr>cachedKB := secondField line (cachedKB f)\<rparr>
      else f)"

definition getPlatformAvailableMemoryMB_Linux :: "os_state \<Rightarrow> int" where
  "getPlatformAvailableMemoryMB_Linux os =
     (case sysinfo os of
        Some info \<Rightarrow>
          sint ((freeram info + bufferram info) * ucast (mem_unit info)) sdiv (1024 * 1024)
      | None \<Rightarrow>
          (case proc_meminfo os of
             Some lines \<Rightarrow>
               (let f = foldl scanAvailableLine
                          \<lparr>memAvailableKB = 0, memFreeKB = 0, buffersKB = 0, cachedKB = 0\<rparr>
                          lines
                in if memAvailableKB f > 0 then memAvailableKB f sdiv 1024
                   else if memFreeKB f > 0 then
                     wrap64 (wrap64 (memFreeKB f + buffersKB f) + cachedKB f) sdiv 1024
                   else 0)
           | None \<Rightarrow> 0))"

definition getPlatformAvailableMemoryMB_Unknown :: "os_state \<Rightarrow> int" where
  "getPlatformAvailableMemoryMB_Unknown os = 0"

fun getPlatformAvailableMemoryMB :: "platform \<Rightarrow> os_state \<Rightarrow> int" where
  "getPlatformAvailableMemoryMB Windows os = getPlatformAvailableMemoryMB_Windows os"
| "getPlatformAvailableMemoryMB Darwin os = getPlatformAvailableMemoryMB_Darwin os"
| "getPlatformAvailableMemoryMB Linux os = getPlatformAvailableMemoryMB_Linux os"
| "getPlatformAvailableMemoryMB Unknown os = getPlatformAvailableMemoryMB_Unknown os"

section \<open>The memory manager\<close>

text \<open>
  The object: its one data member, \<open>_cachedTotalMemoryMB\<close>, and a count of the calls of
  \<open>getPlatformTotalMemoryMB\<close> made so far, which records the effect on the operating
  system. Every operation takes the state of the operating system at the time of the call
  and returns the object as it leaves it. The \<open>qDebug\<close> lines write to the message handler
  and are left out.
\<close>

record SystemMemoryManager =
  cachedTotalMemoryMB :: int
  totalProbes :: nat

text \<open>
  Modelled from the spec: the object at process start. The initialiser of
  \<open>_cachedTotalMemoryMB\<close> is in the missing header \<open>systemmemorymanager.h\<close>; the
  specification says the cache is created absent, and \<open>-1\<close> is the value
  \<open>getTotalMemoryMB\<close> takes for absent.
\<close>

definition startup :: SystemMemoryManager where
  "startup = \<lparr> cachedTotalMemoryMB = - 1, totalProbes = 0 \<rparr>"

definition getTotalMemoryMB ::
  "platform \<Rightarrow> os_state \<Rightarrow> SystemMemoryManager \<Rightarrow> int \<times> SystemMemoryManager" where
  "getTotalMemoryMB p os m =
     (if cachedTotalMemoryMB m = - 1 then
        (let m1 = m\<lparr> cachedTotalMemoryMB := getPlatformTotalMemoryMB p os,
                     totalProbes := Suc (totalProbes m) \<rparr>;
             m2 = (if cachedTotalMemoryMB m1 \<le> 0 then m1\<lparr> cachedTotalMemoryMB := 4096 \<rparr>
                   else m1)
         in (cachedTotalMemoryMB m2, m2))
      else (cachedTotalMemoryMB m, m))"

definition getAvailableMemoryMB ::
  "platform \<Rightarrow> os_state \<Rightarrow> SystemMemoryManager \<Rightarrow> int \<times> SystemMemoryManager" where
  "getAvailableMemoryMB p os m = getTotalMemoryMB p os m"

definition calculateSyncConfiguration ::
  "constants \<Rightarrow> platform \<Rightarrow> os_state \<Rightarrow> SystemMemoryManager
     \<Rightarrow> SyncConfiguration \<times> SystemMemoryManager" where
  "calculateSyncConfiguration c p os m =
     (case getTotalMemoryMB p os m of
        (totalMemMB, m') \<Rightarrow> (configFor c totalMemMB, m'))"

text \<open>
  A process makes the public calls one after the other, each against the operating system
  as it is then.
\<close>

datatype call = GetTotalMemoryMB | GetAvailableMemoryMB | CalculateSyncConfiguration

datatype answer = MB int | Config SyncConfiguration

fun perform ::
  "constants \<Rightarrow> platform \<Rightarrow> call \<Rightarrow> os_state \<Rightarrow> SystemMemoryManager
     \<Rightarrow> answer \<times> SystemMemoryManager" where
  "perform c p GetTotalMemoryMB os m =
     (case getTotalMemoryMB p os m of (v, m') \<Rightarrow> (MB v, m'))"
| "perform c p GetAvailableMemoryMB os m =
     (case getAvailableMemoryMB p os m of (v, m') \<Rightarrow> (MB v, m'))"
| "perform c p CalculateSyncConfiguration os m =
     (case calculateSyncConfiguration c p os m of (cfg, m') \<Rightarrow> (Config cfg, m'))"

fun run ::
  "constants \<Rightarrow> platform \<Rightarrow> (call \<times> os_state) list \<Rightarrow> SystemMemoryManager
     \<Rightarrow> answer list \<times> SystemMemoryManager" where
  "run c p [] m = ([], m)"
| "run c p ((k, os) # rest) m =
     (case perform c p k os m of
        (a, m1) \<Rightarrow> (case run c p rest m1 of (as, m2) \<Rightarrow> (a # as, m2)))"

section \<open>Fixtures\<close>

text \<open>
  Operating systems to evaluate the probes on: one where every call fails; two Linux
  systems of 4 GiB (1048576 pages of 4096 bytes) that differ in free memory only; one
  where \<open>sysinfo\<close> fails and \<open>/proc/meminfo\<close> can be read; and three where the
  \<open>MemTotal:\<close> line has no space after the colon, has no second field, or is missing.
\<close>

definition os_failing :: os_state where
  "os_failing =
     \<lparr> GlobalMemoryStatusEx = None, hw_memsize = None, host_statistics64 = None,
       sysinfo = None, proc_meminfo = None \<rparr>"

definition os_4GiB_idle :: os_state where
  "os_4GiB_idle =
     os_failing\<lparr> sysinfo :=
       Some \<lparr> totalram = 1048576, freeram = 262144, bufferram = 0, mem_unit = 4096 \<rparr> \<rparr>"

definition os_4GiB_busy :: os_state where
  "os_4GiB_busy =
     os_failing\<lparr> sysinfo :=
       Some \<lparr> totalram = 1048576, freeram = 1024, bufferram = 0, mem_unit = 4096 \<rparr> \<rparr>"

definition os_meminfo :: os_state where
  "os_meminfo =
     os_failing\<lparr> proc_meminfo :=
       Some [''MemFree:          329272 kB'',
             ''MemTotal:        8052152 kB'',
             ''MemAvailable:    5120000 kB''] \<rparr>"

definition os_meminfo_malformed :: os_state where
  "os_meminfo_malformed = os_failing\<lparr> proc_meminfo := Some [''MemTotal:8052152 kB''] \<rparr>"

definition os_meminfo_short :: os_state where
  "os_meminfo_short = os_failing\<lparr> proc_meminfo := Some [''MemTotal:''] \<rparr>"

definition os_meminfo_no_total :: os_state where
  "os_meminfo_no_total = os_failing\<lparr> proc_meminfo := Some [''SwapTotal:       2097148 kB''] \<rparr>"

text \<open>
  The value the first call of \<open>getTotalMemoryMB\<close> caches, written out: the probe's result,
  or 4096 when that is not positive.
\<close>

abbreviation firstTotal :: "platform \<Rightarrow> os_state \<Rightarrow> int" where
  "firstTotal p os \<equiv>
     (if getPlatformTotalMemoryMB p os \<le> 0 then 4096 else getPlatformTotalMemoryMB p os)"

section \<open>Decimal rendering\<close>

lemma digits_small: "n < 10 \<Longrightarrow> digits n = [''0123456789'' ! n]"
  by (simp add: digits.simps)

lemma digits_large:
  "10 \<le> n \<Longrightarrow> digits n = digits (n div 10) @ [''0123456789'' ! (n mod 10)]"
  by (subst digits.simps) simp

lemma number_4095: "number 4095 = ''4095''"
  by (simp add: number_def digits_small digits_large)

lemma number_4096: "number 4096 = ''4096''"
  by (simp add: number_def digits_small digits_large)

lemma number_16384: "number 16384 = ''16384''"
  by (simp add: number_def digits_small digits_large)

section \<open>Arithmetic within 64 bits\<close>

lemma wrap64_id: "- (2 ^ 63) \<le> x \<Longrightarrow> x < 2 ^ 63 \<Longrightarrow> wrap64 x = x"
  by (simp add: wrap64_def)

lemma sdiv_nonneg: "0 \<le> k \<Longrightarrow> 0 < l \<Longrightarrow> k sdiv l = k div (l::int)"
  by (simp add: signed_divide_int_def sgn_if)

lemma sdiv_neg_le0: "k < 0 \<Longrightarrow> 0 < l \<Longrightarrow> k sdiv l \<le> (0::int)"
  by (simp add: signed_divide_int_def sgn_if pos_imp_zdiv_nonneg_iff)

lemma sdiv64_bound: "(T::int) < 2 ^ 49 \<Longrightarrow> T sdiv 64 < 2 ^ 43"
proof (cases "0 \<le> T")
  case True
  assume "T < 2 ^ 49"
  with True show ?thesis by (simp add: sdiv_nonneg)
next
  case False
  then have "T sdiv 64 \<le> 0" by (simp add: sdiv_neg_le0)
  then show ?thesis by simp
qed

lemma sdiv80_bound: "(T::int) < 2 ^ 49 \<Longrightarrow> T sdiv 80 < 2 ^ 43"
proof (cases "0 \<le> T")
  case True
  assume "T < 2 ^ 49"
  with True show ?thesis by (simp add: sdiv_nonneg)
next
  case False
  then have "T sdiv 80 \<le> 0" by (simp add: sdiv_neg_le0)
  then show ?thesis by simp
qed

lemma scaled_in_range:
  assumes "0 < mb" and "mb < 2 ^ 43"
  shows "wrap64 (wrap64 (mb * 1024) * 1024) = mb * 1024 * 1024"
proof -
  have a: "wrap64 (mb * 1024) = mb * 1024"
    using assms by (intro wrap64_id) simp_all
  have b: "wrap64 (mb * 1024 * 1024) = mb * 1024 * 1024"
    using assms by (intro wrap64_id) simp_all
  show ?thesis unfolding a b ..
qed

section \<open>The configuration, field by field\<close>

lemma calculateSyncConfiguration_eq:
  "calculateSyncConfiguration c p os m
     = (configFor c (fst (getTotalMemoryMB p os m)), snd (getTotalMemoryMB p os m))"
  by (simp add: calculateSyncConfiguration_def split: prod.split)

lemma configFor_bytes:
  "syncIntervalBytes (configFor c T)
     = max (MIN_SYNC_INTERVAL_BYTES c)
         (min (MAX_SYNC_INTERVAL_BYTES c) (wrap64 (wrap64 (syncIntervalMB c T * 1024) * 1024)))"
  by (simp add: configFor_def syncIntervalMB_def split: prod.split)

lemma configFor_ms: "syncIntervalMs (configFor c T) = fst (snd (tierPolicy c T))"
  by (simp add: configFor_def split: prod.split)

lemma configFor_tier: "memoryTier (configFor c T) = snd (snd (tierPolicy c T))"
  by (simp add: configFor_def split: prod.split)

lemma syncIntervalMB_range:
  assumes "LOW_MEMORY_THRESHOLD_MB c \<le> HIGH_MEMORY_THRESHOLD_MB c"
    and "HIGH_MEMORY_THRESHOLD_MB c \<le> 2 ^ 49"
  shows "0 < syncIntervalMB c T \<and> syncIntervalMB c T < 2 ^ 43"
proof -
  consider (low) "T < LOW_MEMORY_THRESHOLD_MB c"
    | (medium) "\<not> T < LOW_MEMORY_THRESHOLD_MB c" "T < HIGH_MEMORY_THRESHOLD_MB c"
    | (high) "\<not> T < LOW_MEMORY_THRESHOLD_MB c" "\<not> T < HIGH_MEMORY_THRESHOLD_MB c"
    by blast
  then show ?thesis
  proof cases
    case low
    with assms have "T < 2 ^ 49" by linarith
    then have "T sdiv 64 < 2 ^ 43" by (rule sdiv64_bound)
    with low show ?thesis by (simp add: syncIntervalMB_def tierPolicy_def)
  next
    case medium
    with assms have "T < 2 ^ 49" by linarith
    then have "T sdiv 80 < 2 ^ 43" by (rule sdiv80_bound)
    with medium show ?thesis by (simp add: syncIntervalMB_def tierPolicy_def)
  next
    case high
    have "0 < min 256 (max 64 (T sdiv 64)) \<and> min 256 (max 64 (T sdiv 64)) < 2 ^ 43"
      by (simp add: min_def max_def)
    with high show ?thesis by (simp add: syncIntervalMB_def tierPolicy_def)
  qed
qed

section \<open>The cache\<close>

lemma getTotalMemoryMB_cached:
  "cachedTotalMemoryMB m \<noteq> - 1 \<Longrightarrow> getTotalMemoryMB p os m = (cachedTotalMemoryMB m, m)"
  by (simp add: getTotalMemoryMB_def)

lemma getTotalMemoryMB_first:
  "cachedTotalMemoryMB m = - 1 \<Longrightarrow>
     getTotalMemoryMB p os m
       = (firstTotal p os,
          m\<lparr> cachedTotalMemoryMB := firstTotal p os, totalProbes := Suc (totalProbes m) \<rparr>)"
  by (simp add: getTotalMemoryMB_def Let_def)

lemma getTotalMemoryMB_startup:
  "getTotalMemoryMB p os startup
     = (firstTotal p os, \<lparr> cachedTotalMemoryMB = firstTotal p os, totalProbes = 1 \<rparr>)"
  by (simp add: getTotalMemoryMB_first startup_def)

lemma calculateSyncConfiguration_cached:
  "T \<noteq> - 1 \<Longrightarrow>
     calculateSyncConfiguration c p os \<lparr> cachedTotalMemoryMB = T, totalProbes = n \<rparr>
       = (configFor c T, \<lparr> cachedTotalMemoryMB = T, totalProbes = n \<rparr>)"
  by (simp add: calculateSyncConfiguration_def getTotalMemoryMB_cached)

lemma perform_cached_state:
  "cachedTotalMemoryMB m \<noteq> - 1 \<Longrightarrow> snd (perform c p k os m) = m"
  by (cases k)
    (simp_all add: getTotalMemoryMB_cached getAvailableMemoryMB_def
      calculateSyncConfiguration_def)

lemma perform_first_state:
  "snd (perform c p k os startup)
     = \<lparr> cachedTotalMemoryMB = firstTotal p os, totalProbes = 1 \<rparr>"
  by (cases k)
    (simp_all add: getTotalMemoryMB_startup getAvailableMemoryMB_def
      calculateSyncConfiguration_def)

lemma run_Cons_state:
  "snd (run c p ((k, os) # rest) m) = snd (run c p rest (snd (perform c p k os m)))"
  by (simp add: case_prod_unfold)

lemma run_cached_state:
  "cachedTotalMemoryMB m \<noteq> - 1 \<Longrightarrow> snd (run c p cs m) = m"
proof (induction cs)
  case Nil
  then show ?case by simp
next
  case (Cons x cs)
  obtain k os where x: "x = (k, os)" by (cases x)
  from Cons.prems have "snd (perform c p k os m) = m" by (rule perform_cached_state)
  with Cons show ?case by (simp add: x run_Cons_state del: run.simps)
qed

lemma run_total_cached:
  "cachedTotalMemoryMB m \<noteq> - 1 \<Longrightarrow>
     run c p (map (Pair GetTotalMemoryMB) oss) m
       = (replicate (length oss) (MB (cachedTotalMemoryMB m)), m)"
  by (induction oss) (simp_all add: getTotalMemoryMB_cached)

section \<open>Scanning \<open>/proc/meminfo\<close>\<close>

text \<open>
  The pieces of a split hold no white space, and together they are the characters of the
  line that are not white space.
\<close>

lemma splitFrom_nonempty: "splitFrom inRun s \<noteq> []"
  by (induction inRun s rule: splitFrom.induct) (auto split: list.splits)

lemma splitFrom_no_space:
  "\<forall>piece \<in> set (splitFrom inRun s). \<forall>c \<in> set piece. \<not> isSpace c"
proof (induction inRun s rule: splitFrom.induct)
  case (1 inRun)
  show ?case by simp
next
  case (2 inRun ch rest)
  show ?case
  proof (cases "isSpace ch")
    case True
    with 2 show ?thesis by (cases inRun) simp_all
  next
    case False
    with 2 have IH: "\<forall>piece \<in> set (splitFrom False rest). \<forall>c \<in> set piece. \<not> isSpace c"
      by simp
    obtain piece pieces where sp: "splitFrom False rest = piece # pieces"
      using splitFrom_nonempty [of False rest] by (cases "splitFrom False rest") simp_all
    from IH have "\<forall>c \<in> set piece. \<not> isSpace c" and "\<forall>q \<in> set pieces. \<forall>c \<in> set q. \<not> isSpace c"
      by (simp_all add: sp)
    with False show ?thesis by (simp add: sp)
  qed
qed

lemma splitFrom_concat:
  "concat (splitFrom inRun s) = filter (\<lambda>ch. \<not> isSpace ch) s"
  by (induction inRun s rule: splitFrom.induct) (auto split: list.splits)

lemma scanMemTotal_skip:
  "\<forall>l \<in> set pre. \<not> startsWith l ''MemTotal:'' \<Longrightarrow>
     scanMemTotal (pre @ rest) = scanMemTotal rest"
  by (induction pre) simp_all

lemma scanMemTotal_missing:
  "\<forall>l \<in> set lines. \<not> startsWith l ''MemTotal:'' \<Longrightarrow> scanMemTotal lines = 0"
  by (induction lines) simp_all

lemma scan_keeps_available:
  "\<forall>l \<in> set ls. \<not> startsWith l ''MemAvailable:'' \<Longrightarrow>
     memAvailableKB (foldl scanAvailableLine f ls) = memAvailableKB f"
  by (induction ls arbitrary: f) (simp_all add: scanAvailableLine_def)

lemma scan_keeps_free:
  "\<forall>l \<in> set ls. \<not> startsWith l ''MemAvailable:'' \<and> \<not> startsWith l ''MemFree:'' \<Longrightarrow>
     memFreeKB (foldl scanAvailableLine f ls) = memFreeKB f"
  by (induction ls arbitrary: f) (simp_all add: scanAvailableLine_def)

lemma scan_sets_available:
  assumes "startsWith line ''MemAvailable:''"
    and "2 \<le> length (splitWhitespace line)"
    and "toLongLong (splitWhitespace line ! 1) = Some k"
  shows "memAvailableKB (scanAvailableLine f line) = k"
  using assms by (simp add: scanAvailableLine_def secondField_def toLongLong0_def)

section \<open>The probes on the fixtures\<close>

lemma total_os_failing: "getPlatformTotalMemoryMB Linux os_failing = 0"
  by (simp add: getPlatformTotalMemoryMB_Linux_def os_failing_def)

lemma total_os_4GiB_idle: "getPlatformTotalMemoryMB Linux os_4GiB_idle = 4096"
  by (simp add: getPlatformTotalMemoryMB_Linux_def os_4GiB_idle_def os_failing_def)

lemma total_os_4GiB_busy: "getPlatformTotalMemoryMB Linux os_4GiB_busy = 4096"
  by (simp add: getPlatformTotalMemoryMB_Linux_def os_4GiB_busy_def os_failing_def)

lemma available_os_4GiB_idle: "getPlatformAvailableMemoryMB Linux os_4GiB_idle = 1024"
  by (simp add: getPlatformAvailableMemoryMB_Linux_def os_4GiB_idle_def os_failing_def
      signed_divide_int_def)

lemma available_os_4GiB_busy: "getPlatformAvailableMemoryMB Linux os_4GiB_busy = 4"
  by (simp add: getPlatformAvailableMemoryMB_Linux_def os_4GiB_busy_def os_failing_def
      signed_divide_int_def)

lemma split_line: "splitWhitespace ''MemTotal:        8052152 kB'' = [''MemTotal:'', ''8052152'', ''kB'']"
  by (simp add: splitWhitespace_def isSpace_def)

lemma parse_num: "toLongLong ''8052152'' = Some 8052152"
  by (simp add: toLongLong_def decimalValue_def isDigit_def)

lemma starts1: "startsWith ''MemTotal:        8052152 kB'' ''MemTotal:''"
  by (simp add: startsWith_def)

lemma starts2: "\<not> startsWith ''MemFree:          329272 kB'' ''MemTotal:''"
  by (simp add: startsWith_def)

lemma total_os_meminfo: "getPlatformTotalMemoryMB Linux os_meminfo = 7863"
  by (simp add: getPlatformTotalMemoryMB_Linux_def os_meminfo_def os_failing_def
      starts1 starts2 split_line parse_num signed_divide_int_def)

lemma split_malformed: "splitWhitespace ''MemTotal:8052152 kB'' = [''MemTotal:8052152'', ''kB'']"
  by (simp add: splitWhitespace_def isSpace_def)

lemma parse_kB: "toLongLong ''kB'' = None"
  by (simp add: toLongLong_def isDigit_def)

lemma split_short: "splitWhitespace ''MemTotal:'' = [''MemTotal:'']"
  by (simp add: splitWhitespace_def isSpace_def)

lemma split_available:
  "splitWhitespace ''MemAvailable:    5120000 kB'' = [''MemAvailable:'', ''5120000'', ''kB'']"
  by (simp add: splitWhitespace_def isSpace_def)

lemma parse_available: "toLongLong ''5120000'' = Some 5120000"
  by (simp add: toLongLong_def decimalValue_def isDigit_def)

section \<open>The tiers and their formulas\<close>

text \<open>
  C1. Let the thresholds be ordered and at most \<open>2 ^ 49\<close> MB, so that no product leaves
  64 bits. For every total \<open>T\<close> that \<open>getTotalMemoryMB\<close> hands to
  \<open>calculateSyncConfiguration\<close>: below \<open>LOW_MEMORY_THRESHOLD_MB\<close> the interval before
  the bound is \<open>max(16, T / 64)\<close> MB and the time interval 3000 ms; from
  \<open>LOW_MEMORY_THRESHOLD_MB\<close> and below \<open>HIGH_MEMORY_THRESHOLD_MB\<close> they are
  \<open>max(32, T / 80)\<close> MB and \<open>DEFAULT_SYNC_INTERVAL_MS\<close>; from
  \<open>HIGH_MEMORY_THRESHOLD_MB\<close> on they are \<open>min(256, max(64, T / 64))\<close> MB and 7000 ms.
  The division truncates toward zero. The byte interval is that number of MB times
  \<open>1024 * 1024\<close>, bounded below by \<open>MIN_SYNC_INTERVAL_BYTES\<close> and above by
  \<open>MAX_SYNC_INTERVAL_BYTES\<close>.
\<close>

theorem tier_formulas:
  assumes "LOW_MEMORY_THRESHOLD_MB c \<le> HIGH_MEMORY_THRESHOLD_MB c"
    and "HIGH_MEMORY_THRESHOLD_MB c \<le> 2 ^ 49"
    and "getTotalMemoryMB p os m = (T, m')"
    and "calculateSyncConfiguration c p os m = (cfg, m'')"
  shows "(T < LOW_MEMORY_THRESHOLD_MB c \<longrightarrow>
            syncIntervalMB c T = max 16 (T sdiv 64) \<and> syncIntervalMs cfg = 3000) \<and>
         (LOW_MEMORY_THRESHOLD_MB c \<le> T \<and> T < HIGH_MEMORY_THRESHOLD_MB c \<longrightarrow>
            syncIntervalMB c T = max 32 (T sdiv 80) \<and>
            syncIntervalMs cfg = DEFAULT_SYNC_INTERVAL_MS c) \<and>
         (HIGH_MEMORY_THRESHOLD_MB c \<le> T \<longrightarrow>
            syncIntervalMB c T = min 256 (max 64 (T sdiv 64)) \<and> syncIntervalMs cfg = 7000) \<and>
         syncIntervalBytes cfg
           = max (MIN_SYNC_INTERVAL_BYTES c)
               (min (MAX_SYNC_INTERVAL_BYTES c) (syncIntervalMB c T * 1024 * 1024))"
proof -
  have cfg: "cfg = configFor c T"
    using assms(3,4) by (simp add: calculateSyncConfiguration_def)
  have low: "T < LOW_MEMORY_THRESHOLD_MB c \<longrightarrow>
      syncIntervalMB c T = max 16 (T sdiv 64) \<and> syncIntervalMs cfg = 3000"
    by (simp add: cfg configFor_ms syncIntervalMB_def tierPolicy_def)
  have medium: "LOW_MEMORY_THRESHOLD_MB c \<le> T \<and> T < HIGH_MEMORY_THRESHOLD_MB c \<longrightarrow>
      syncIntervalMB c T = max 32 (T sdiv 80) \<and>
      syncIntervalMs cfg = DEFAULT_SYNC_INTERVAL_MS c"
    by (simp add: cfg configFor_ms syncIntervalMB_def tierPolicy_def)
  have high: "HIGH_MEMORY_THRESHOLD_MB c \<le> T \<longrightarrow>
      syncIntervalMB c T = min 256 (max 64 (T sdiv 64)) \<and> syncIntervalMs cfg = 7000"
    using assms(1) by (simp add: cfg configFor_ms syncIntervalMB_def tierPolicy_def)
  have range: "0 < syncIntervalMB c T \<and> syncIntervalMB c T < 2 ^ 43"
    using assms(1,2) by (rule syncIntervalMB_range)
  then have "wrap64 (wrap64 (syncIntervalMB c T * 1024) * 1024)
      = syncIntervalMB c T * 1024 * 1024"
    by (simp only: scaled_in_range)
  then have bytes: "syncIntervalBytes cfg
      = max (MIN_SYNC_INTERVAL_BYTES c)
          (min (MAX_SYNC_INTERVAL_BYTES c) (syncIntervalMB c T * 1024 * 1024))"
    by (simp only: cfg configFor_bytes)
  from low medium high bytes show ?thesis by blast
qed

text \<open>
  The four totals of the specification, with its constants: 2048 MB gives 33,554,432 bytes
  and 3000 ms, 8192 MB gives 106,954,752 bytes and 5000 ms, 65536 MB gives 268,435,456
  bytes and 7000 ms, 512 MB gives 16,777,216 bytes and 3000 ms.
\<close>

theorem tier_formulas_examples:
  "(let cfg = fst (calculateSyncConfiguration example_constants Linux os_failing
                     \<lparr> cachedTotalMemoryMB = 2048, totalProbes = 1 \<rparr>)
    in syncIntervalBytes cfg = 33554432 \<and> syncIntervalMs cfg = 3000) \<and>
   (let cfg = fst (calculateSyncConfiguration example_constants Linux os_failing
                     \<lparr> cachedTotalMemoryMB = 8192, totalProbes = 1 \<rparr>)
    in syncIntervalBytes cfg = 106954752 \<and> syncIntervalMs cfg = 5000) \<and>
   (let cfg = fst (calculateSyncConfiguration example_constants Linux os_failing
                     \<lparr> cachedTotalMemoryMB = 65536, totalProbes = 1 \<rparr>)
    in syncIntervalBytes cfg = 268435456 \<and> syncIntervalMs cfg = 7000) \<and>
   (let cfg = fst (calculateSyncConfiguration example_constants Linux os_failing
                     \<lparr> cachedTotalMemoryMB = 512, totalProbes = 1 \<rparr>)
    in syncIntervalBytes cfg = 16777216 \<and> syncIntervalMs cfg = 3000)"
proof -
  have order: "LOW_MEMORY_THRESHOLD_MB example_constants
      \<le> HIGH_MEMORY_THRESHOLD_MB example_constants"
    by (simp add: example_constants_def)
  have small: "HIGH_MEMORY_THRESHOLD_MB example_constants \<le> 2 ^ 49"
    by (simp add: example_constants_def)
  have total: "getTotalMemoryMB Linux os_failing \<lparr> cachedTotalMemoryMB = T, totalProbes = 1 \<rparr>
      = (T, \<lparr> cachedTotalMemoryMB = T, totalProbes = 1 \<rparr>)" if "T \<noteq> - 1" for T
    using that by (simp add: getTotalMemoryMB_cached)
  have calc: "calculateSyncConfiguration example_constants Linux os_failing
        \<lparr> cachedTotalMemoryMB = T, totalProbes = 1 \<rparr>
      = (configFor example_constants T, \<lparr> cachedTotalMemoryMB = T, totalProbes = 1 \<rparr>)"
    if "T \<noteq> - 1" for T
    using that by (rule calculateSyncConfiguration_cached)
  have a: "syncIntervalBytes (configFor example_constants 2048) = 33554432 \<and>
      syncIntervalMs (configFor example_constants 2048) = 3000"
    using tier_formulas [OF order small total [of 2048] calc [of 2048]]
    by (simp add: example_constants_def signed_divide_int_def)
  have b: "syncIntervalBytes (configFor example_constants 8192) = 106954752 \<and>
      syncIntervalMs (configFor example_constants 8192) = 5000"
    using tier_formulas [OF order small total [of 8192] calc [of 8192]]
    by (simp add: example_constants_def signed_divide_int_def)
  have c: "syncIntervalBytes (configFor example_constants 65536) = 268435456 \<and>
      syncIntervalMs (configFor example_constants 65536) = 7000"
    using tier_formulas [OF order small total [of 65536] calc [of 65536]]
    by (simp add: example_constants_def signed_divide_int_def)
  have d: "syncIntervalBytes (configFor example_constants 512) = 16777216 \<and>
      syncIntervalMs (configFor example_constants 512) = 3000"
    using tier_formulas [OF order small total [of 512] calc [of 512]]
    by (simp add: example_constants_def signed_divide_int_def)
  from a b c d show ?thesis by (simp add: calculateSyncConfiguration_cached)
qed

section \<open>The bounds\<close>

text \<open>
  C2. When \<open>MIN_SYNC_INTERVAL_BYTES\<close> is at most \<open>MAX_SYNC_INTERVAL_BYTES\<close>, every call
  of \<open>calculateSyncConfiguration\<close>, in every state of the object and of the operating
  system (a positive detected total, a failed detection, a filled cache), returns a
  configuration, and its \<open>syncIntervalBytes\<close> lies between the two bounds.
\<close>

theorem interval_within_bounds:
  assumes "MIN_SYNC_INTERVAL_BYTES c \<le> MAX_SYNC_INTERVAL_BYTES c"
  shows "\<exists>cfg m'. calculateSyncConfiguration c p os m = (cfg, m') \<and>
           MIN_SYNC_INTERVAL_BYTES c \<le> syncIntervalBytes cfg \<and>
           syncIntervalBytes cfg \<le> MAX_SYNC_INTERVAL_BYTES c"
  using assms by (simp add: calculateSyncConfiguration_eq configFor_bytes)

theorem interval_within_bounds_witness:
  "MIN_SYNC_INTERVAL_BYTES example_constants \<le> MAX_SYNC_INTERVAL_BYTES example_constants \<and>
   16777216 \<le> syncIntervalBytes (fst (calculateSyncConfiguration example_constants Unknown
                                        os_failing startup)) \<and>
   syncIntervalBytes (fst (calculateSyncConfiguration example_constants Unknown
                             os_failing startup)) \<le> 268435456"
proof -
  have h: "MIN_SYNC_INTERVAL_BYTES example_constants
      \<le> MAX_SYNC_INTERVAL_BYTES example_constants"
    by (simp add: example_constants_def)
  from interval_within_bounds [OF h, of Unknown os_failing startup]
  obtain cfg m' where
    "calculateSyncConfiguration example_constants Unknown os_failing startup = (cfg, m')"
    "MIN_SYNC_INTERVAL_BYTES example_constants \<le> syncIntervalBytes cfg"
    "syncIntervalBytes cfg \<le> MAX_SYNC_INTERVAL_BYTES example_constants"
    by blast
  with h show ?thesis by (simp add: example_constants_def)
qed

section \<open>Detection failure\<close>

text \<open>
  C3. When the platform probe returns a value that is not positive, the first call of
  \<open>getTotalMemoryMB\<close> returns 4096 and leaves 4096 in the cache; the configuration
  computed by that call and by every later one is the configuration for a total of
  4096 MB; and a process whose first call meets the failing probe answers every call as
  the process whose first call detects 4096 MB. The probe of an unknown platform always
  returns 0. The calls return values, there is no failure to hand on.
\<close>

theorem detection_failure_is_4096:
  assumes "getPlatformTotalMemoryMB p os \<le> 0"
  shows "getTotalMemoryMB p os startup
           = (4096, \<lparr> cachedTotalMemoryMB = 4096, totalProbes = 1 \<rparr>) \<and>
         calculateSyncConfiguration c p os startup
           = (configFor c 4096, \<lparr> cachedTotalMemoryMB = 4096, totalProbes = 1 \<rparr>) \<and>
         (\<forall>os2. calculateSyncConfiguration c p os2
                   \<lparr> cachedTotalMemoryMB = 4096, totalProbes = 1 \<rparr>
                 = (configFor c 4096, \<lparr> cachedTotalMemoryMB = 4096, totalProbes = 1 \<rparr>)) \<and>
         (\<forall>os'. getPlatformTotalMemoryMB p os' = 4096 \<longrightarrow>
            run c p ((k, os) # rest) startup = run c p ((k, os') # rest) startup) \<and>
         getPlatformTotalMemoryMB Unknown os = 0"
proof -
  let ?m = "\<lparr> cachedTotalMemoryMB = 4096, totalProbes = 1 \<rparr>"
  have total: "getTotalMemoryMB p os startup = (4096, ?m)"
    using assms by (simp add: getTotalMemoryMB_startup)
  have calc: "calculateSyncConfiguration c p os startup = (configFor c 4096, ?m)"
    by (simp add: calculateSyncConfiguration_def total)
  have later: "\<forall>os2. calculateSyncConfiguration c p os2 ?m = (configFor c 4096, ?m)"
    by (simp add: calculateSyncConfiguration_cached)
  have same: "run c p ((k, os) # rest) startup = run c p ((k, os') # rest) startup"
    if "getPlatformTotalMemoryMB p os' = 4096" for os'
  proof -
    from that have "getTotalMemoryMB p os' startup = (4096, ?m)"
      by (simp add: getTotalMemoryMB_startup)
    with total have "perform c p k os startup = perform c p k os' startup"
      by (cases k) (simp_all add: getAvailableMemoryMB_def calculateSyncConfiguration_def)
    then show ?thesis by simp
  qed
  have unknown: "getPlatformTotalMemoryMB Unknown os = 0"
    by (simp add: getPlatformTotalMemoryMB_Unknown_def)
  from total calc later same unknown show ?thesis by simp
qed

theorem detection_failure_is_4096_witness:
  "getPlatformTotalMemoryMB Linux os_failing \<le> 0 \<and>
   getPlatformTotalMemoryMB Linux os_4GiB_idle = 4096 \<and>
   fst (getTotalMemoryMB Linux os_failing startup) = 4096 \<and>
   calculateSyncConfiguration example_constants Linux os_failing startup
     = calculateSyncConfiguration example_constants Linux os_4GiB_idle startup \<and>
   run example_constants Linux
       [(CalculateSyncConfiguration, os_failing), (GetTotalMemoryMB, os_meminfo)] startup
     = run example_constants Linux
         [(CalculateSyncConfiguration, os_4GiB_idle), (GetTotalMemoryMB, os_meminfo)] startup"
proof -
  have failing: "getPlatformTotalMemoryMB Linux os_failing \<le> 0"
    using total_os_failing by simp
  note fact = detection_failure_is_4096 [OF failing,
      of example_constants CalculateSyncConfiguration "[(GetTotalMemoryMB, os_meminfo)]"]
  from fact have total: "fst (getTotalMemoryMB Linux os_failing startup) = 4096"
    by simp
  from fact have "run example_constants Linux
       [(CalculateSyncConfiguration, os_failing), (GetTotalMemoryMB, os_meminfo)] startup
     = run example_constants Linux
         [(CalculateSyncConfiguration, os_4GiB_idle), (GetTotalMemoryMB, os_meminfo)] startup"
    using total_os_4GiB_idle by blast
  moreover have "calculateSyncConfiguration example_constants Linux os_failing startup
     = calculateSyncConfiguration example_constants Linux os_4GiB_idle startup"
    using total_os_failing total_os_4GiB_idle
    by (simp add: calculateSyncConfiguration_def getTotalMemoryMB_startup)
  ultimately show ?thesis using failing total total_os_4GiB_idle by blast
qed

section \<open>The tier boundaries\<close>

text \<open>
  C4. With \<open>LOW_MEMORY_THRESHOLD_MB\<close> below \<open>HIGH_MEMORY_THRESHOLD_MB\<close>: a total equal
  to \<open>LOW_MEMORY_THRESHOLD_MB\<close> gets the medium tier, its label, time interval and
  formula, not the low one; a total equal to \<open>HIGH_MEMORY_THRESHOLD_MB\<close> gets the high
  tier, not the medium one.
\<close>

theorem boundary_tiers:
  assumes "LOW_MEMORY_THRESHOLD_MB c < HIGH_MEMORY_THRESHOLD_MB c"
    and "calculateSyncConfiguration c p os m = (cfg, m')"
  shows "(fst (getTotalMemoryMB p os m) = LOW_MEMORY_THRESHOLD_MB c \<longrightarrow>
            memoryTier cfg = ''Medium memory ('' @ number (LOW_MEMORY_THRESHOLD_MB c) @ ''MB)'' \<and>
            memoryTier cfg \<noteq> ''Low memory ('' @ number (LOW_MEMORY_THRESHOLD_MB c) @ ''MB)'' \<and>
            syncIntervalMs cfg = DEFAULT_SYNC_INTERVAL_MS c \<and>
            syncIntervalMB c (LOW_MEMORY_THRESHOLD_MB c)
              = max 32 (LOW_MEMORY_THRESHOLD_MB c sdiv 80)) \<and>
         (fst (getTotalMemoryMB p os m) = HIGH_MEMORY_THRESHOLD_MB c \<longrightarrow>
            memoryTier cfg = ''High memory ('' @ number (HIGH_MEMORY_THRESHOLD_MB c) @ ''MB)'' \<and>
            memoryTier cfg \<noteq> ''Medium memory ('' @ number (HIGH_MEMORY_THRESHOLD_MB c) @ ''MB)'' \<and>
            syncIntervalMs cfg = 7000 \<and>
            syncIntervalMB c (HIGH_MEMORY_THRESHOLD_MB c)
              = min 256 (max 64 (HIGH_MEMORY_THRESHOLD_MB c sdiv 64)))"
proof -
  have cfg: "cfg = configFor c (fst (getTotalMemoryMB p os m))"
    using assms(2) by (simp add: calculateSyncConfiguration_eq)
  have low: "fst (getTotalMemoryMB p os m) = LOW_MEMORY_THRESHOLD_MB c \<longrightarrow>
            memoryTier cfg = ''Medium memory ('' @ number (LOW_MEMORY_THRESHOLD_MB c) @ ''MB)'' \<and>
            memoryTier cfg \<noteq> ''Low memory ('' @ number (LOW_MEMORY_THRESHOLD_MB c) @ ''MB)'' \<and>
            syncIntervalMs cfg = DEFAULT_SYNC_INTERVAL_MS c \<and>
            syncIntervalMB c (LOW_MEMORY_THRESHOLD_MB c)
              = max 32 (LOW_MEMORY_THRESHOLD_MB c sdiv 80)"
    using assms(1)
    by (simp add: cfg configFor_ms configFor_tier syncIntervalMB_def tierPolicy_def)
  have high: "fst (getTotalMemoryMB p os m) = HIGH_MEMORY_THRESHOLD_MB c \<longrightarrow>
            memoryTier cfg = ''High memory ('' @ number (HIGH_MEMORY_THRESHOLD_MB c) @ ''MB)'' \<and>
            memoryTier cfg \<noteq> ''Medium memory ('' @ number (HIGH_MEMORY_THRESHOLD_MB c) @ ''MB)'' \<and>
            syncIntervalMs cfg = 7000 \<and>
            syncIntervalMB c (HIGH_MEMORY_THRESHOLD_MB c)
              = min 256 (max 64 (HIGH_MEMORY_THRESHOLD_MB c sdiv 64))"
    using assms(1)
    by (simp add: cfg configFor_ms configFor_tier syncIntervalMB_def tierPolicy_def)
  from low high show ?thesis by blast
qed

theorem boundary_tiers_witness:
  "LOW_MEMORY_THRESHOLD_MB example_constants < HIGH_MEMORY_THRESHOLD_MB example_constants \<and>
   memoryTier (configFor example_constants 4096) = ''Medium memory (4096MB)'' \<and>
   syncIntervalMs (configFor example_constants 4096) = 5000 \<and>
   syncIntervalMB example_constants 4096 = 51 \<and>
   memoryTier (configFor example_constants 16384) = ''High memory (16384MB)'' \<and>
   syncIntervalMs (configFor example_constants 16384) = 7000 \<and>
   syncIntervalMB example_constants 16384 = 256"
proof -
  have order: "LOW_MEMORY_THRESHOLD_MB example_constants
      < HIGH_MEMORY_THRESHOLD_MB example_constants"
    by (simp add: example_constants_def)
  have calc: "calculateSyncConfiguration example_constants Linux os_failing
        \<lparr> cachedTotalMemoryMB = T, totalProbes = 1 \<rparr>
      = (configFor example_constants T, \<lparr> cachedTotalMemoryMB = T, totalProbes = 1 \<rparr>)"
    if "T \<noteq> - 1" for T
    using that by (rule calculateSyncConfiguration_cached)
  have low: "memoryTier (configFor example_constants 4096) = ''Medium memory (4096MB)'' \<and>
      syncIntervalMs (configFor example_constants 4096) = 5000 \<and>
      syncIntervalMB example_constants 4096 = 51"
    using boundary_tiers [OF order calc [of 4096]]
    by (simp add: getTotalMemoryMB_cached example_constants_def number_4096
        signed_divide_int_def)
  have high: "memoryTier (configFor example_constants 16384) = ''High memory (16384MB)'' \<and>
      syncIntervalMs (configFor example_constants 16384) = 7000 \<and>
      syncIntervalMB example_constants 16384 = 256"
    using boundary_tiers [OF order calc [of 16384]]
    by (simp add: getTotalMemoryMB_cached example_constants_def number_16384
        signed_divide_int_def)
  from order low high show ?thesis by blast
qed

section \<open>One probe for the life of the process\<close>

text \<open>
  C5. The cache starts absent and no probe has been made. After any sequence of public
  calls the platform probe has been made at most once; after the first call the object
  holds the value detected then (or the fallback) and one probe, whatever calls follow and
  whatever the operating system answers later; and a sequence of calls of
  \<open>getTotalMemoryMB\<close> returns that one value every time.
\<close>

theorem probe_at_most_once:
  "cachedTotalMemoryMB startup = - 1 \<and> totalProbes startup = 0 \<and>
   totalProbes (snd (run c p cs startup)) \<le> 1 \<and>
   snd (run c p ((k, os) # rest) startup)
     = \<lparr> cachedTotalMemoryMB = firstTotal p os, totalProbes = 1 \<rparr> \<and>
   run c p (map (Pair GetTotalMemoryMB) (os # oss)) startup
     = (replicate (Suc (length oss)) (MB (firstTotal p os)),
        \<lparr> cachedTotalMemoryMB = firstTotal p os, totalProbes = 1 \<rparr>)"
proof -
  have probes: "totalProbes (snd (run c p cs startup)) \<le> 1"
  proof (cases cs)
    case Nil
    then show ?thesis by (simp add: startup_def)
  next
    case (Cons x rest)
    obtain k os' where x: "x = (k, os')" by (cases x)
    let ?m = "\<lparr> cachedTotalMemoryMB = firstTotal p os', totalProbes = 1 \<rparr>"
    have first: "snd (perform c p k os' startup) = ?m" by (rule perform_first_state)
    have "cachedTotalMemoryMB ?m \<noteq> - 1" by simp
    then have "snd (run c p rest ?m) = ?m" by (rule run_cached_state)
    with first have "snd (run c p cs startup) = ?m"
      by (simp only: Cons x run_Cons_state)
    then show ?thesis by simp
  qed
  let ?m = "\<lparr> cachedTotalMemoryMB = firstTotal p os, totalProbes = 1 \<rparr>"
  have filled: "cachedTotalMemoryMB ?m \<noteq> - 1" by simp
  then have "snd (run c p rest ?m) = ?m" by (rule run_cached_state)
  then have kept: "snd (run c p ((k, os) # rest) startup) = ?m"
    by (simp only: run_Cons_state perform_first_state)
  from filled have "run c p (map (Pair GetTotalMemoryMB) oss) ?m
      = (replicate (length oss) (MB (cachedTotalMemoryMB ?m)), ?m)"
    by (rule run_total_cached)
  then have calls: "run c p (map (Pair GetTotalMemoryMB) (os # oss)) startup
     = (replicate (Suc (length oss)) (MB (firstTotal p os)), ?m)"
    by (simp add: getTotalMemoryMB_startup)
  from probes kept calls show ?thesis by (simp add: startup_def)
qed

section \<open>The available-memory query\<close>

text \<open>
  C6. On Linux \<open>getPlatformAvailableMemoryMB\<close> takes the answer of \<open>sysinfo\<close> when that
  call succeeds; otherwise it reads \<open>/proc/meminfo\<close>, where a single \<open>MemAvailable:\<close>
  line with a positive number gives that number of kB divided by 1024; it returns 0 when
  the file has neither a \<open>MemAvailable:\<close> nor a \<open>MemFree:\<close> line or cannot be opened,
  and 0 on an unknown platform. \<open>calculateSyncConfiguration\<close> does not depend on it: two
  operating systems with the same total-memory probe get the same configuration and
  object, whatever their available memory.
\<close>

theorem available_query_unused:
  "(sysinfo os = Some info \<longrightarrow>
      getPlatformAvailableMemoryMB Linux os
        = sint ((freeram info + bufferram info) * ucast (mem_unit info)) sdiv (1024 * 1024)) \<and>
   (sysinfo os = None \<and> proc_meminfo os = Some (pre @ line # post) \<and>
    (\<forall>l \<in> set (pre @ post). \<not> startsWith l ''MemAvailable:'') \<and>
    startsWith line ''MemAvailable:'' \<and> 2 \<le> length (splitWhitespace line) \<and>
    toLongLong (splitWhitespace line ! 1) = Some k \<and> 0 < k \<longrightarrow>
      getPlatformAvailableMemoryMB Linux os = k sdiv 1024) \<and>
   (sysinfo os = None \<and> proc_meminfo os = Some lines \<and>
    (\<forall>l \<in> set lines. \<not> startsWith l ''MemAvailable:'' \<and> \<not> startsWith l ''MemFree:'') \<longrightarrow>
      getPlatformAvailableMemoryMB Linux os = 0) \<and>
   (sysinfo os = None \<and> proc_meminfo os = None \<longrightarrow>
      getPlatformAvailableMemoryMB Linux os = 0) \<and>
   getPlatformAvailableMemoryMB Unknown os = 0 \<and>
   (getPlatformTotalMemoryMB p os = getPlatformTotalMemoryMB p os' \<longrightarrow>
      calculateSyncConfiguration c p os m = calculateSyncConfiguration c p os' m)"
proof -
  let ?zero = "\<lparr>memAvailableKB = 0, memFreeKB = 0, buffersKB = 0, cachedKB = 0\<rparr>"
  have primary: "sysinfo os = Some info \<longrightarrow>
      getPlatformAvailableMemoryMB Linux os
        = sint ((freeram info + bufferram info) * ucast (mem_unit info)) sdiv (1024 * 1024)"
    by (simp add: getPlatformAvailableMemoryMB_Linux_def)
  have parsed: "getPlatformAvailableMemoryMB Linux os = k sdiv 1024"
    if "sysinfo os = None" and opened: "proc_meminfo os = Some (pre @ line # post)"
      and others: "\<forall>l \<in> set (pre @ post). \<not> startsWith l ''MemAvailable:''"
      and line: "startsWith line ''MemAvailable:''" "2 \<le> length (splitWhitespace line)"
        "toLongLong (splitWhitespace line ! 1) = Some k"
      and pos: "0 < k"
  proof -
    from others have pre: "\<forall>l \<in> set pre. \<not> startsWith l ''MemAvailable:''"
      and post: "\<forall>l \<in> set post. \<not> startsWith l ''MemAvailable:''"
      by simp_all
    have "memAvailableKB (foldl scanAvailableLine ?zero (pre @ line # post))
        = memAvailableKB (scanAvailableLine (foldl scanAvailableLine ?zero pre) line)"
      using post by (simp add: scan_keeps_available)
    also have "\<dots> = k" using line by (rule scan_sets_available)
    finally have "memAvailableKB (foldl scanAvailableLine ?zero (pre @ line # post)) = k" .
    with pos that(1) opened show ?thesis
      by (simp add: getPlatformAvailableMemoryMB_Linux_def Let_def)
  qed
  have sentinel: "sysinfo os = None \<and> proc_meminfo os = Some lines \<and>
    (\<forall>l \<in> set lines. \<not> startsWith l ''MemAvailable:'' \<and> \<not> startsWith l ''MemFree:'') \<longrightarrow>
      getPlatformAvailableMemoryMB Linux os = 0"
  proof (intro impI, elim conjE)
    assume none: "sysinfo os = None" and opened: "proc_meminfo os = Some lines"
      and no: "\<forall>l \<in> set lines. \<not> startsWith l ''MemAvailable:'' \<and> \<not> startsWith l ''MemFree:''"
    from no have "memAvailableKB (foldl scanAvailableLine ?zero lines) = 0"
      by (simp add: scan_keeps_available)
    moreover from no have "memFreeKB (foldl scanAvailableLine ?zero lines) = 0"
      by (simp add: scan_keeps_free)
    ultimately show "getPlatformAvailableMemoryMB Linux os = 0"
      using none opened by (simp add: getPlatformAvailableMemoryMB_Linux_def Let_def)
  qed
  have closed: "sysinfo os = None \<and> proc_meminfo os = None \<longrightarrow>
      getPlatformAvailableMemoryMB Linux os = 0"
    by (simp add: getPlatformAvailableMemoryMB_Linux_def)
  have unknown: "getPlatformAvailableMemoryMB Unknown os = 0"
    by (simp add: getPlatformAvailableMemoryMB_Unknown_def)
  have policy: "getPlatformTotalMemoryMB p os = getPlatformTotalMemoryMB p os' \<longrightarrow>
      calculateSyncConfiguration c p os m = calculateSyncConfiguration c p os' m"
    by (simp add: calculateSyncConfiguration_def getTotalMemoryMB_def)
  from primary parsed sentinel closed unknown policy show ?thesis by blast
qed

theorem available_query_unused_witness:
  "getPlatformAvailableMemoryMB Linux os_4GiB_idle = 1024 \<and>
   getPlatformAvailableMemoryMB Linux os_4GiB_busy = 4 \<and>
   getPlatformAvailableMemoryMB Linux os_meminfo = 5000 \<and>
   getPlatformAvailableMemoryMB Linux os_meminfo_no_total = 0 \<and>
   getPlatformAvailableMemoryMB Linux os_failing = 0 \<and>
   getPlatformTotalMemoryMB Linux os_4GiB_idle = getPlatformTotalMemoryMB Linux os_4GiB_busy \<and>
   calculateSyncConfiguration example_constants Linux os_4GiB_idle startup
     = calculateSyncConfiguration example_constants Linux os_4GiB_busy startup"
proof -
  have idle: "sysinfo os_4GiB_idle
      = Some \<lparr> totalram = 1048576, freeram = 262144, bufferram = 0, mem_unit = 4096 \<rparr>"
    by (simp add: os_4GiB_idle_def os_failing_def)
  have busy: "sysinfo os_4GiB_busy
      = Some \<lparr> totalram = 1048576, freeram = 1024, bufferram = 0, mem_unit = 4096 \<rparr>"
    by (simp add: os_4GiB_busy_def os_failing_def)
  have a: "getPlatformAvailableMemoryMB Linux os_4GiB_idle = 1024"
    using available_query_unused [of os_4GiB_idle] idle
    by (simp add: signed_divide_int_def)
  have b: "getPlatformAvailableMemoryMB Linux os_4GiB_busy = 4"
    using available_query_unused [of os_4GiB_busy] busy
    by (simp add: signed_divide_int_def)
  have opened: "sysinfo os_meminfo = None \<and>
      proc_meminfo os_meminfo
        = Some ([''MemFree:          329272 kB'', ''MemTotal:        8052152 kB'']
                  @ ''MemAvailable:    5120000 kB'' # [])"
    by (simp add: os_meminfo_def os_failing_def)
  have others: "\<forall>l \<in> set ([''MemFree:          329272 kB'', ''MemTotal:        8052152 kB'']
      @ []). \<not> startsWith l ''MemAvailable:''"
    by (simp add: startsWith_def)
  have line: "startsWith ''MemAvailable:    5120000 kB'' ''MemAvailable:''"
    by (simp add: startsWith_def)
  have c: "getPlatformAvailableMemoryMB Linux os_meminfo = 5000"
    using available_query_unused [of os_meminfo _
        "[''MemFree:          329272 kB'', ''MemTotal:        8052152 kB'']"
        "''MemAvailable:    5120000 kB''" "[]" 5120000]
      opened others line split_available parse_available
    by (simp add: signed_divide_int_def)
  have d: "getPlatformAvailableMemoryMB Linux os_failing = 0"
    using available_query_unused [of os_failing] by (simp add: os_failing_def)
  have same: "getPlatformTotalMemoryMB Linux os_4GiB_idle
      = getPlatformTotalMemoryMB Linux os_4GiB_busy"
    by (simp only: total_os_4GiB_idle total_os_4GiB_busy)
  with available_query_unused [of os_4GiB_idle _ _ _ _ _ _ Linux os_4GiB_busy
      example_constants startup]
  have e: "calculateSyncConfiguration example_constants Linux os_4GiB_idle startup
     = calculateSyncConfiguration example_constants Linux os_4GiB_busy startup"
    by blast
  have none: "sysinfo os_meminfo_no_total = None \<and>
      proc_meminfo os_meminfo_no_total = Some [''SwapTotal:       2097148 kB'']"
    by (simp add: os_meminfo_no_total_def os_failing_def)
  have f: "getPlatformAvailableMemoryMB Linux os_meminfo_no_total = 0"
    using available_query_unused [of os_meminfo_no_total _ _ _ _ _
        "[''SwapTotal:       2097148 kB'']"] none
    by (simp add: startsWith_def)
  from a b c d same e f show ?thesis by blast
qed

section \<open>The \<open>/proc/meminfo\<close> fallback of the total-memory probe\<close>

text \<open>
  C7. Let \<open>sysinfo\<close> fail on Linux. If the first line of \<open>/proc/meminfo\<close> that starts
  with \<open>MemTotal:\<close> splits at runs of white space into at least two fields and the
  second is an integer, the probe returns that number of kB divided by 1024, truncated
  toward zero. If that line has fewer than two fields or its second field is no integer,
  if no line starts with \<open>MemTotal:\<close>, or if the file cannot be opened, the probe
  returns 0.
\<close>

theorem meminfo_fallback:
  assumes "sysinfo os = None"
  shows "(proc_meminfo os = Some (pre @ line # post) \<and>
          (\<forall>l \<in> set pre. \<not> startsWith l ''MemTotal:'') \<and> startsWith line ''MemTotal:'' \<longrightarrow>
            (2 \<le> length (splitWhitespace line) \<and>
             toLongLong (splitWhitespace line ! 1) = Some memKB \<longrightarrow>
               getPlatformTotalMemoryMB Linux os = memKB sdiv 1024) \<and>
            (length (splitWhitespace line) < 2 \<or>
             2 \<le> length (splitWhitespace line) \<and>
             toLongLong (splitWhitespace line ! 1) = None \<longrightarrow>
               getPlatformTotalMemoryMB Linux os = 0)) \<and>
         (proc_meminfo os = Some lines \<and> (\<forall>l \<in> set lines. \<not> startsWith l ''MemTotal:'') \<longrightarrow>
            getPlatformTotalMemoryMB Linux os = 0) \<and>
         (proc_meminfo os = None \<longrightarrow> getPlatformTotalMemoryMB Linux os = 0)"
proof -
  have found: "getPlatformTotalMemoryMB Linux os = scanMemTotal (line # post)"
    if "proc_meminfo os = Some (pre @ line # post)"
      and "\<forall>l \<in> set pre. \<not> startsWith l ''MemTotal:''"
    using that assms by (simp add: getPlatformTotalMemoryMB_Linux_def scanMemTotal_skip)
  have entry: "proc_meminfo os = Some (pre @ line # post) \<and>
          (\<forall>l \<in> set pre. \<not> startsWith l ''MemTotal:'') \<and> startsWith line ''MemTotal:'' \<longrightarrow>
            (2 \<le> length (splitWhitespace line) \<and>
             toLongLong (splitWhitespace line ! 1) = Some memKB \<longrightarrow>
               getPlatformTotalMemoryMB Linux os = memKB sdiv 1024) \<and>
            (length (splitWhitespace line) < 2 \<or>
             2 \<le> length (splitWhitespace line) \<and>
             toLongLong (splitWhitespace line ! 1) = None \<longrightarrow>
               getPlatformTotalMemoryMB Linux os = 0)"
    using found by (auto simp: Let_def)
  have missing: "proc_meminfo os = Some lines \<and>
      (\<forall>l \<in> set lines. \<not> startsWith l ''MemTotal:'') \<longrightarrow>
        getPlatformTotalMemoryMB Linux os = 0"
    using assms by (simp add: getPlatformTotalMemoryMB_Linux_def scanMemTotal_missing)
  have closed: "proc_meminfo os = None \<longrightarrow> getPlatformTotalMemoryMB Linux os = 0"
    using assms by (simp add: getPlatformTotalMemoryMB_Linux_def)
  from entry missing closed show ?thesis by blast
qed

theorem meminfo_fallback_witness:
  "sysinfo os_meminfo = None \<and>
   getPlatformTotalMemoryMB Linux os_meminfo = 7863 \<and>
   getPlatformTotalMemoryMB Linux os_meminfo_malformed = 0 \<and>
   getPlatformTotalMemoryMB Linux os_meminfo_short = 0 \<and>
   getPlatformTotalMemoryMB Linux os_meminfo_no_total = 0 \<and>
   getPlatformTotalMemoryMB Linux os_failing = 0"
proof -
  have s1: "sysinfo os_meminfo = None"
    by (simp add: os_meminfo_def os_failing_def)
  have s2: "sysinfo os_meminfo_malformed = None"
    by (simp add: os_meminfo_malformed_def os_failing_def)
  have s3: "sysinfo os_failing = None"
    by (simp add: os_failing_def)
  have file1: "proc_meminfo os_meminfo
      = Some ([''MemFree:          329272 kB''] @ ''MemTotal:        8052152 kB''
                # [''MemAvailable:    5120000 kB''])"
    by (simp add: os_meminfo_def os_failing_def)
  have file2: "proc_meminfo os_meminfo_malformed = Some ([] @ ''MemTotal:8052152 kB'' # [])"
    by (simp add: os_meminfo_malformed_def os_failing_def)
  have file3: "proc_meminfo os_failing = None"
    by (simp add: os_failing_def)
  have a: "getPlatformTotalMemoryMB Linux os_meminfo = 7863"
    using meminfo_fallback [OF s1, of "[''MemFree:          329272 kB'']"
        "''MemTotal:        8052152 kB''" "[''MemAvailable:    5120000 kB'']" 8052152]
      file1 starts1 starts2 split_line parse_num
    by (simp add: signed_divide_int_def)
  have b: "getPlatformTotalMemoryMB Linux os_meminfo_malformed = 0"
    using meminfo_fallback [OF s2, of "[]" "''MemTotal:8052152 kB''" "[]"]
      file2 split_malformed parse_kB
    by (simp add: startsWith_def)
  have c: "getPlatformTotalMemoryMB Linux os_failing = 0"
    using meminfo_fallback [OF s3] file3 by simp
  have s4: "sysinfo os_meminfo_short = None"
    by (simp add: os_meminfo_short_def os_failing_def)
  have file4: "proc_meminfo os_meminfo_short = Some ([] @ ''MemTotal:'' # [])"
    by (simp add: os_meminfo_short_def os_failing_def)
  have d: "getPlatformTotalMemoryMB Linux os_meminfo_short = 0"
    using meminfo_fallback [OF s4, of "[]" "''MemTotal:''" "[]"] file4 split_short
    by (simp add: startsWith_def)
  have s5: "sysinfo os_meminfo_no_total = None"
    by (simp add: os_meminfo_no_total_def os_failing_def)
  have file5: "proc_meminfo os_meminfo_no_total = Some [''SwapTotal:       2097148 kB'']"
    by (simp add: os_meminfo_no_total_def os_failing_def)
  have e: "getPlatformTotalMemoryMB Linux os_meminfo_no_total = 0"
    using meminfo_fallback [OF s5, of _ _ _ _ "[''SwapTotal:       2097148 kB'']"] file5
    by (simp add: startsWith_def)
  from s1 a b c d e show ?thesis by blast
qed

section \<open>Repeated configuration\<close>

text \<open>
  C8. Two calls of \<open>calculateSyncConfiguration\<close> one after the other, in any state of the
  object and against any two states of the operating system, return the same
  configuration: the second call leaves the object as the first left it, makes no probe,
  and the configuration is the one for the total in the cache.
\<close>

theorem repeated_configuration:
  "(case calculateSyncConfiguration c p os1 m of
      (cfg1, m1) \<Rightarrow>
        (case calculateSyncConfiguration c p os2 m1 of
           (cfg2, m2) \<Rightarrow>
             cfg2 = cfg1 \<and> m2 = m1 \<and> totalProbes m2 = totalProbes m1 \<and>
             cfg1 = configFor c (cachedTotalMemoryMB m1)))"
proof (cases "cachedTotalMemoryMB m = - 1")
  case True
  then show ?thesis
    by (simp add: calculateSyncConfiguration_def getTotalMemoryMB_first
        getTotalMemoryMB_cached)
next
  case False
  then show ?thesis
    by (simp add: calculateSyncConfiguration_def getTotalMemoryMB_cached)
qed

section \<open>Available memory is total memory\<close>

text \<open>
  C9. In every state of the object \<open>getAvailableMemoryMB\<close> returns what
  \<open>getTotalMemoryMB\<close> returns and leaves the object as \<open>getTotalMemoryMB\<close> leaves it;
  its result depends on the operating system through the total-memory probe only, not
  through \<open>getPlatformAvailableMemoryMB\<close>.
\<close>

theorem available_is_total:
  "getAvailableMemoryMB p os m = getTotalMemoryMB p os m \<and>
   (getPlatformTotalMemoryMB p os = getPlatformTotalMemoryMB p os' \<longrightarrow>
      getAvailableMemoryMB p os m = getAvailableMemoryMB p os' m)"
  by (simp add: getAvailableMemoryMB_def getTotalMemoryMB_def)

theorem available_is_total_witness:
  "getPlatformTotalMemoryMB Linux os_4GiB_idle = getPlatformTotalMemoryMB Linux os_4GiB_busy \<and>
   getPlatformAvailableMemoryMB Linux os_4GiB_idle = 1024 \<and>
   getPlatformAvailableMemoryMB Linux os_4GiB_busy = 4 \<and>
   getAvailableMemoryMB Linux os_4GiB_idle startup
     = getAvailableMemoryMB Linux os_4GiB_busy startup \<and>
   fst (getAvailableMemoryMB Linux os_4GiB_busy startup) = 4096"
proof -
  have same: "getPlatformTotalMemoryMB Linux os_4GiB_idle
      = getPlatformTotalMemoryMB Linux os_4GiB_busy"
    by (simp only: total_os_4GiB_idle total_os_4GiB_busy)
  note fact = available_is_total [of Linux os_4GiB_busy startup os_4GiB_idle]
  from fact have "fst (getAvailableMemoryMB Linux os_4GiB_busy startup)
      = fst (getTotalMemoryMB Linux os_4GiB_busy startup)"
    by simp
  also have "\<dots> = 4096"
    using total_os_4GiB_busy by (simp add: getTotalMemoryMB_startup)
  finally have total: "fst (getAvailableMemoryMB Linux os_4GiB_busy startup) = 4096" .
  from available_is_total [of Linux os_4GiB_idle startup os_4GiB_busy] same
  have "getAvailableMemoryMB Linux os_4GiB_idle startup
      = getAvailableMemoryMB Linux os_4GiB_busy startup"
    by blast
  with same total available_os_4GiB_idle available_os_4GiB_busy show ?thesis by blast
qed

section \<open>The step at the lower threshold\<close>

text \<open>
  C10. \<open>syncIntervalBytes\<close> is not monotone in the total. With the constants of the
  specification, a total of 4095 MB is in the low tier and gets 63 MB, 66,060,288 bytes;
  a total of 4096 MB is in the medium tier and gets 51 MB, 53,477,376 bytes.
\<close>

theorem not_monotone:
  "fst (calculateSyncConfiguration example_constants p os
          \<lparr> cachedTotalMemoryMB = 4095, totalProbes = n \<rparr>)
     = \<lparr> syncIntervalBytes = 66060288, syncIntervalMs = 3000,
         memoryTier = ''Low memory (4095MB)'' \<rparr> \<and>
   fst (calculateSyncConfiguration example_constants p os
          \<lparr> cachedTotalMemoryMB = 4096, totalProbes = n \<rparr>)
     = \<lparr> syncIntervalBytes = 53477376, syncIntervalMs = 5000,
         memoryTier = ''Medium memory (4096MB)'' \<rparr> \<and>
   syncIntervalMB example_constants 4095 = 63 \<and>
   syncIntervalMB example_constants 4096 = 51 \<and>
   (\<exists>T1 T2. T1 < T2 \<and>
      syncIntervalBytes (configFor example_constants T1)
        > syncIntervalBytes (configFor example_constants T2))"
proof -
  have a: "configFor example_constants 4095
      = \<lparr> syncIntervalBytes = 66060288, syncIntervalMs = 3000,
          memoryTier = ''Low memory (4095MB)'' \<rparr>"
    by (simp add: configFor_def tierPolicy_def example_constants_def wrap64_def
        signed_divide_int_def number_4095)
  have b: "configFor example_constants 4096
      = \<lparr> syncIntervalBytes = 53477376, syncIntervalMs = 5000,
          memoryTier = ''Medium memory (4096MB)'' \<rparr>"
    by (simp add: configFor_def tierPolicy_def example_constants_def wrap64_def
        signed_divide_int_def number_4096)
  have mb: "syncIntervalMB example_constants 4095 = 63 \<and>
      syncIntervalMB example_constants 4096 = 51"
    by (simp add: syncIntervalMB_def tierPolicy_def example_constants_def
        signed_divide_int_def)
  have "(4095::int) < 4096 \<and>
     syncIntervalBytes (configFor example_constants 4095)
       > syncIntervalBytes (configFor example_constants 4096)"
    by (simp add: a b)
  then have ex: "\<exists>T1 T2. T1 < T2 \<and>
      syncIntervalBytes (configFor example_constants T1)
        > syncIntervalBytes (configFor example_constants T2)"
    by blast
  have c1: "fst (calculateSyncConfiguration example_constants p os
          \<lparr> cachedTotalMemoryMB = 4095, totalProbes = n \<rparr>) = configFor example_constants 4095"
    by (simp add: calculateSyncConfiguration_cached)
  have c2: "fst (calculateSyncConfiguration example_constants p os
          \<lparr> cachedTotalMemoryMB = 4096, totalProbes = n \<rparr>) = configFor example_constants 4096"
    by (simp add: calculateSyncConfiguration_cached)
  from mb ex show ?thesis unfolding c1 c2 a b by blast
qed

end
